theory Spec2Isabelle
  imports Main
begin

section \<open>Values of the program\<close>

text \<open>
  The module \<^verbatim>\<open>djmoney/money.py\<close> defines the class \<^verbatim>\<open>Money\<close>, a subclass of
  \<^verbatim>\<open>moneyed.Money\<close> that carries two extra attributes (\<^verbatim>\<open>decimal_places\<close> and
  \<^verbatim>\<open>format_options\<close>), and the helper \<^verbatim>\<open>maybe_convert\<close>.

  A currency object is identified by its code. A \<^verbatim>\<open>Decimal\<close> is modelled by its finite
  values: an integer coefficient and a decimal exponent, standing for
  \<open>coefficient * 10 ^ exponent\<close> (no NaN, no infinity, no negative zero, exponents inside
  the range of the arithmetic context).
\<close>

datatype currency = Currency (code: string)

datatype decimal = Decimal (coefficient: int) (exponent: int)

datatype rounding =
    ROUND_UP | ROUND_DOWN | ROUND_CEILING | ROUND_FLOOR
  | ROUND_HALF_UP | ROUND_HALF_DOWN | ROUND_HALF_EVEN | ROUND_05UP

text \<open>
  Dictionaries are mutable objects that the caller and the program share, so they live in a
  store and are named by their address. A \<^verbatim>\<open>MappingProxyType\<close> object wraps the address of
  the dictionary it was built from.
\<close>

type_synonym addr = nat

datatype mappingproxy = MappingProxyType (underlying: addr)

record money =
  amount :: decimal
  currency :: currency
  decimal_places :: int
  format_options :: "mappingproxy option"
  use_l10n :: "bool option"

text \<open>
  The Python values that reach the operators as operands or leave them as results.
  \<open>PyF name\<close> is an instance of \<^verbatim>\<open>django.db.models.F\<close>; \<open>PyCombinedExpression\<close> is the
  symbolic expression that the reflected operators of such a token build.
\<close>

datatype pyval =
    PyNone
  | PyNotImplemented
  | PyInt int
  | PyStr string
  | PyDecimal decimal
  | PyCurrency currency
  | PyMoney money
  | PyF string
  | PyCombinedExpression pyval string pyval

datatype error =
    TypeError string
  | AttributeError string
  | ValueError string
  | KeyError string
  | InvalidOperation
  | ConversionError string

section \<open>Collaborators\<close>

text \<open>
  The operators that the class calls on its base class and on expression tokens.
\<close>

datatype dunder =
    Dadd | Dsub | Dmul | Dtruediv | Drmod
  | Dradd | Drsub | Drmul | Drtruediv

datatype unary = Uround int | Upos | Uneg | Uabs

text \<open>
  Everything the module reads from outside itself is a field of the environment:
  the settings (\<^verbatim>\<open>DECIMAL_PLACES\<close> of \<^verbatim>\<open>djmoney.settings\<close>; \<^verbatim>\<open>AUTO_CONVERT_MONEY\<close> and
  \<^verbatim>\<open>USE_L10N\<close> of \<^verbatim>\<open>django.conf.settings\<close>, which are \<open>None\<close> when the attribute is
  absent), the precision and rounding mode of the current \<^verbatim>\<open>decimal\<close> context, babel's
  table of currency fractions (minor-unit digits by currency code, and the entry
  \<^verbatim>\<open>DEFAULT\<close>), the conversion service \<^verbatim>\<open>convert_money\<close>, the methods of
  the base class \<^verbatim>\<open>moneyed.Money\<close> reached through \<^verbatim>\<open>super()\<close>, and the reflected operators
  of an \<^verbatim>\<open>F\<close> token.
\<close>

record env =
  DECIMAL_PLACES :: int
  AUTO_CONVERT_MONEY :: "bool option"
  USE_L10N :: "bool option"
  context_prec :: nat
  context_rounding :: rounding
  currency_fractions :: "string \<rightharpoonup> nat"
  currency_fractions_DEFAULT :: nat
  convert_money :: "pyval \<Rightarrow> currency \<Rightarrow> error + pyval"
  super_init :: "pyval \<Rightarrow> pyval \<Rightarrow> error + decimal \<times> currency"
  super_binop :: "dunder \<Rightarrow> money \<Rightarrow> pyval \<Rightarrow> error + pyval"
  super_unop :: "unary \<Rightarrow> money \<Rightarrow> error + pyval"
  F_reflected :: "dunder \<Rightarrow> string \<Rightarrow> money \<Rightarrow> error + pyval"

text \<open>
  A computation returns a value or raises, and leaves the list of the calls it made to
  the collaborators, in order.
\<close>

datatype call =
    Call_convert_money pyval currency
  | Call_super_init pyval pyval
  | Call_super dunder money pyval
  | Call_super_unary unary money
  | Call_reflected dunder string money

type_synonym 'a py = "(error + 'a) \<times> call list"

definition py_return :: "'a \<Rightarrow> 'a py" where
  "py_return x = (Inr x, [])"

definition py_raise :: "error \<Rightarrow> 'a py" where
  "py_raise e = (Inl e, [])"

definition py_lift :: "error + 'a \<Rightarrow> 'a py" where
  "py_lift r = (r, [])"

definition py_call :: "call \<Rightarrow> error + 'a \<Rightarrow> 'a py" where
  "py_call c r = (r, [c])"

definition py_bind :: "'a py \<Rightarrow> ('a \<Rightarrow> 'b py) \<Rightarrow> 'b py" where
  "py_bind m f =
     (case m of
        (Inl e, l) \<Rightarrow> (Inl e, l)
      | (Inr x, l) \<Rightarrow> (case f x of (r, l') \<Rightarrow> (r, l @ l')))"

section \<open>The decimal operations the module calls\<close>

text \<open>
  \<^verbatim>\<open>Decimal.quantize(exp, rounding)\<close> gives the operand the exponent of \<^verbatim>\<open>exp\<close>, rounds the
  coefficient in the given mode when digits are dropped, and signals
  \<^verbatim>\<open>InvalidOperation\<close> when the coefficient of the result has more digits than the
  precision of the context.
\<close>

fun digit_count :: "nat \<Rightarrow> nat" where
  "digit_count n = (if n < 10 then 1 else Suc (digit_count (n div 10)))"

definition round_coefficient :: "rounding \<Rightarrow> int \<Rightarrow> nat \<Rightarrow> int" where
  "round_coefficient mode c s =
     (let p = 10 ^ s;
          q = \<bar>c\<bar> div p;
          r = \<bar>c\<bar> mod p;
          up = (case mode of
                  ROUND_DOWN \<Rightarrow> False
                | ROUND_UP \<Rightarrow> r \<noteq> 0
                | ROUND_CEILING \<Rightarrow> 0 < c \<and> r \<noteq> 0
                | ROUND_FLOOR \<Rightarrow> c < 0 \<and> r \<noteq> 0
                | ROUND_HALF_UP \<Rightarrow> p \<le> 2 * r
                | ROUND_HALF_DOWN \<Rightarrow> p < 2 * r
                | ROUND_HALF_EVEN \<Rightarrow> p < 2 * r \<or> (p = 2 * r \<and> odd q)
                | ROUND_05UP \<Rightarrow> r \<noteq> 0 \<and> (q mod 10 = 0 \<or> q mod 10 = 5))
      in sgn c * (if up then q + 1 else q))"

definition rescale :: "decimal \<Rightarrow> int \<Rightarrow> rounding \<Rightarrow> decimal" where
  "rescale d e mode =
     (if e \<le> exponent d
      then Decimal (coefficient d * 10 ^ nat (exponent d - e)) e
      else Decimal (round_coefficient mode (coefficient d) (nat (e - exponent d))) e)"

definition Decimal_quantize :: "env \<Rightarrow> decimal \<Rightarrow> decimal \<Rightarrow> rounding \<Rightarrow> error + decimal" where
  "Decimal_quantize env d exp mode =
     (let ans = rescale d (exponent exp) mode
      in if context_prec env < digit_count (nat \<bar>coefficient ans\<bar>)
         then Inl InvalidOperation
         else Inr ans)"

text \<open>
  \<^verbatim>\<open>Decimal('0.1') ** digits\<close>: the power of a decimal by a natural number, which is exact
  whenever the coefficient of the result fits the precision; the coefficient of a power
  of \<^verbatim>\<open>Decimal('0.1')\<close> is always 1.
\<close>

definition Decimal_pow :: "decimal \<Rightarrow> nat \<Rightarrow> decimal" where
  "Decimal_pow d n = Decimal (coefficient d ^ n) (exponent d * int n)"

text \<open>
  The built-in \<^verbatim>\<open>round(d, n)\<close> on a decimal: without \<^verbatim>\<open>n\<close> it returns the nearest integer
  (ties to even) as an \<^verbatim>\<open>int\<close>; with \<^verbatim>\<open>n\<close> it quantizes to the exponent \<open>-n\<close> in the
  rounding mode of the context.
\<close>

definition Decimal_round :: "env \<Rightarrow> decimal \<Rightarrow> int option \<Rightarrow> error + pyval" where
  "Decimal_round env d n =
     (case n of
        None \<Rightarrow> Inr (PyInt (coefficient (rescale d 0 ROUND_HALF_EVEN)))
      | Some k \<Rightarrow>
          (case Decimal_quantize env d (Decimal 1 (- k)) (context_rounding env) of
             Inl e \<Rightarrow> Inl e
           | Inr q \<Rightarrow> Inr (PyDecimal q)))"

section \<open>The class Money\<close>

text \<open>
  \<^verbatim>\<open>Money.__init__\<close>: the two attributes of this class are set, then the base class
  stores the amount and the currency (and raises when it rejects them).
\<close>

definition Money_init :: "env \<Rightarrow> pyval \<Rightarrow> pyval \<Rightarrow> addr option \<Rightarrow> int option \<Rightarrow> money py" where
  "Money_init env amount_arg currency_arg format_options_arg decimal_places_arg =
     (let dp = (case decimal_places_arg of Some d \<Rightarrow> d | None \<Rightarrow> DECIMAL_PLACES env);
          fo = (case format_options_arg of
                  Some d \<Rightarrow> Some (MappingProxyType d)
                | None \<Rightarrow> None)
      in py_bind (py_call (Call_super_init amount_arg currency_arg)
                    (super_init env amount_arg currency_arg))
           (\<lambda>(a, c). py_return
              \<lparr>amount = a, currency = c, decimal_places = dp,
               format_options = fo, use_l10n = None\<rparr>))"

text \<open>
  \<^verbatim>\<open>getattr(candidate, "decimal_places", None)\<close>: only instances of this class have the
  attribute. Assigning the attribute succeeds on an instance; \<^verbatim>\<open>None\<close>,
  \<^verbatim>\<open>NotImplemented\<close>, integers, strings and decimals accept no new attribute; the other
  objects accept it, and the model does not track it on them.
\<close>

fun getattr_decimal_places :: "pyval \<Rightarrow> int option" where
  "getattr_decimal_places (PyMoney m) = Some (decimal_places m)"
| "getattr_decimal_places _ = None"

fun setattr_decimal_places :: "pyval \<Rightarrow> int \<Rightarrow> pyval py" where
  "setattr_decimal_places (PyMoney m) v = py_return (PyMoney (m\<lparr>decimal_places := v\<rparr>))"
| "setattr_decimal_places PyNone v = py_raise (AttributeError ''decimal_places'')"
| "setattr_decimal_places PyNotImplemented v = py_raise (AttributeError ''decimal_places'')"
| "setattr_decimal_places (PyInt i) v = py_raise (AttributeError ''decimal_places'')"
| "setattr_decimal_places (PyStr s) v = py_raise (AttributeError ''decimal_places'')"
| "setattr_decimal_places (PyDecimal d) v = py_raise (AttributeError ''decimal_places'')"
| "setattr_decimal_places x v = py_return x"

text \<open>
  \<^verbatim>\<open>Money._copy_attributes(source, target)\<close>: the target is mutated in place; the model
  returns the target after the assignment.
\<close>

definition copy_attributes :: "money \<Rightarrow> pyval \<Rightarrow> pyval \<Rightarrow> pyval py" where
  "copy_attributes self source target =
     (let selection = List.map_filter getattr_decimal_places [PyMoney self, source]
      in case selection of
           [] \<Rightarrow> py_return target
         | x # xs \<Rightarrow> setattr_decimal_places target (fold max xs x))"

text \<open>
  \<^verbatim>\<open>maybe_convert(value, currency)\<close>. The setting is read with the default \<^verbatim>\<open>False\<close>;
  \<^verbatim>\<open>and\<close> evaluates \<^verbatim>\<open>value.currency\<close> only when the setting is true, and that attribute
  exists on instances of \<^verbatim>\<open>Money\<close> only.
\<close>

fun getattr_currency :: "pyval \<Rightarrow> error + currency" where
  "getattr_currency (PyMoney m) = Inr (currency m)"
| "getattr_currency _ = Inl (AttributeError ''currency'')"

definition maybe_convert :: "env \<Rightarrow> pyval \<Rightarrow> currency \<Rightarrow> pyval py" where
  "maybe_convert env v c =
     (if (case AUTO_CONVERT_MONEY env of None \<Rightarrow> False | Some b \<Rightarrow> b)
      then py_bind (py_lift (getattr_currency v))
             (\<lambda>vc. if vc \<noteq> c
                    then py_call (Call_convert_money v c) (convert_money env v c)
                    else py_return v)
      else py_return v)"

text \<open>The call \<^verbatim>\<open>super().__op__(other)\<close> and the call \<^verbatim>\<open>other.__rop__(self)\<close> on a token.\<close>

definition super_call :: "env \<Rightarrow> dunder \<Rightarrow> money \<Rightarrow> pyval \<Rightarrow> pyval py" where
  "super_call env op self other = py_call (Call_super op self other) (super_binop env op self other)"

definition super_unary :: "env \<Rightarrow> unary \<Rightarrow> money \<Rightarrow> pyval py" where
  "super_unary env op self = py_call (Call_super_unary op self) (super_unop env op self)"

definition reflected :: "env \<Rightarrow> dunder \<Rightarrow> string \<Rightarrow> money \<Rightarrow> pyval py" where
  "reflected env op f self = py_call (Call_reflected op f self) (F_reflected env op f self)"

text \<open>\<^verbatim>\<open>Money.__add__\<close>, \<^verbatim>\<open>Money.__sub__\<close>, \<^verbatim>\<open>Money.__mul__\<close>, \<^verbatim>\<open>Money.__truediv__\<close>.\<close>

definition Money_add :: "env \<Rightarrow> money \<Rightarrow> pyval \<Rightarrow> pyval py" where
  "Money_add env self other =
     (case other of
        PyF f \<Rightarrow> reflected env Dradd f self
      | _ \<Rightarrow>
          py_bind (maybe_convert env other (currency self)) (\<lambda>other'.
          py_bind (super_call env Dadd self other') (\<lambda>result.
          copy_attributes self other' result)))"

definition Money_sub :: "env \<Rightarrow> money \<Rightarrow> pyval \<Rightarrow> pyval py" where
  "Money_sub env self other =
     (case other of
        PyF f \<Rightarrow> reflected env Drsub f self
      | _ \<Rightarrow>
          py_bind (maybe_convert env other (currency self)) (\<lambda>other'.
          py_bind (super_call env Dsub self other') (\<lambda>result.
          copy_attributes self other' result)))"

fun isinstance_F :: "pyval \<Rightarrow> bool" where
  "isinstance_F (PyF f) = True"
| "isinstance_F _ = False"

fun isinstance_Money :: "pyval \<Rightarrow> bool" where
  "isinstance_Money (PyMoney m) = True"
| "isinstance_Money _ = False"

definition Money_mul :: "env \<Rightarrow> money \<Rightarrow> pyval \<Rightarrow> pyval py" where
  "Money_mul env self other =
     (case other of
        PyF f \<Rightarrow> reflected env Drmul f self
      | _ \<Rightarrow>
          py_bind (super_call env Dmul self other) (\<lambda>result.
          copy_attributes self other result))"

definition Money_truediv :: "env \<Rightarrow> money \<Rightarrow> pyval \<Rightarrow> pyval py" where
  "Money_truediv env self other =
     (case other of
        PyF f \<Rightarrow> reflected env Drtruediv f self
      | _ \<Rightarrow>
          py_bind (super_call env Dtruediv self other) (\<lambda>result.
          if isinstance_Money result
          then copy_attributes self other result
          else py_return result))"

text \<open>\<^verbatim>\<open>Money.__rtruediv__\<close> raises whatever the operand is.\<close>

definition Money_rtruediv :: "env \<Rightarrow> money \<Rightarrow> pyval \<Rightarrow> pyval py" where
  "Money_rtruediv env self other =
     py_raise (TypeError ''Cannot divide non-Money by a Money instance.'')"

text \<open>The property \<^verbatim>\<open>Money.is_localized\<close>.\<close>

definition is_localized :: "env \<Rightarrow> money \<Rightarrow> bool" where
  "is_localized env self =
     (case use_l10n self of
        None \<Rightarrow> (case USE_L10N env of None \<Rightarrow> True | Some setting \<Rightarrow> setting)
      | Some b \<Rightarrow> b)"

text \<open>
  \<^verbatim>\<open>Money.__round__(n)\<close> builds the new instance itself; \<^verbatim>\<open>Money.round(ndigits)\<close> and
  the sign operators take it from the base class.
\<close>

definition Money_dunder_round :: "env \<Rightarrow> money \<Rightarrow> int option \<Rightarrow> pyval py" where
  "Money_dunder_round env self n =
     py_bind (py_lift (Decimal_round env (amount self) n)) (\<lambda>amount'.
     py_bind (Money_init env amount' (PyCurrency (currency self)) None None) (\<lambda>new.
     copy_attributes self (PyMoney self) (PyMoney new)))"

definition Money_round :: "env \<Rightarrow> money \<Rightarrow> int \<Rightarrow> pyval py" where
  "Money_round env self ndigits =
     py_bind (super_unary env (Uround ndigits) self) (\<lambda>new.
     copy_attributes self (PyMoney self) new)"

definition Money_pos :: "env \<Rightarrow> money \<Rightarrow> pyval py" where
  "Money_pos env self =
     py_bind (super_unary env Upos self) (\<lambda>new. copy_attributes self (PyMoney self) new)"

definition Money_neg :: "env \<Rightarrow> money \<Rightarrow> pyval py" where
  "Money_neg env self =
     py_bind (super_unary env Uneg self) (\<lambda>new. copy_attributes self (PyMoney self) new)"

definition Money_abs :: "env \<Rightarrow> money \<Rightarrow> pyval py" where
  "Money_abs env self =
     py_bind (super_unary env Uabs self) (\<lambda>new. copy_attributes self (PyMoney self) new)"

definition Money_rmod :: "env \<Rightarrow> money \<Rightarrow> pyval \<Rightarrow> pyval py" where
  "Money_rmod env self other =
     py_bind (super_call env Drmod self other) (\<lambda>new.
     copy_attributes self (PyMoney self) new)"

text \<open>
  The class body rebinds the reflected operators to the operators defined above:
  \<^verbatim>\<open>__radd__ = __add__\<close> and \<^verbatim>\<open>__rmul__ = __mul__\<close>.
\<close>

definition Money_radd :: "env \<Rightarrow> money \<Rightarrow> pyval \<Rightarrow> pyval py" where
  "Money_radd = Money_add"

definition Money_rmul :: "env \<Rightarrow> money \<Rightarrow> pyval \<Rightarrow> pyval py" where
  "Money_rmul = Money_mul"

text \<open>
  babel's \<^verbatim>\<open>get_currency_precision(currency)\<close> is
  \<^verbatim>\<open>precisions.get(currency, precisions['DEFAULT'])[0]\<close>, a lookup in a dictionary whose keys
  are currency code strings. A key that is a string finds the entry of that code; any
  other object, a \<^verbatim>\<open>Currency\<close> object included, equals no string key, so the lookup
  answers the default.
\<close>

definition get_currency_precision :: "env \<Rightarrow> pyval \<Rightarrow> nat" where
  "get_currency_precision env key =
     (case key of
        PyStr s \<Rightarrow>
          (case currency_fractions env s of
             Some d \<Rightarrow> d
           | None \<Rightarrow> currency_fractions_DEFAULT env)
      | _ \<Rightarrow> currency_fractions_DEFAULT env)"

text \<open>
  \<^verbatim>\<open>Money.quantize(exp, rounding)\<close>. The lookup is given \<^verbatim>\<open>self.currency\<close>, the currency
  object. An explicit \<^verbatim>\<open>exp\<close> is taken as a decimal already
  (\<^verbatim>\<open>Decimal(exp)\<close> returns a decimal unchanged).
\<close>

definition Money_quantize :: "env \<Rightarrow> money \<Rightarrow> decimal option \<Rightarrow> rounding option \<Rightarrow> money py" where
  "Money_quantize env self exp_arg rounding_arg =
     (let rounding = (case rounding_arg of None \<Rightarrow> ROUND_HALF_UP | Some r \<Rightarrow> r);
          exp = (case exp_arg of
                   None \<Rightarrow>
                     (let digits = get_currency_precision env (PyCurrency (currency self))
                      in Decimal_pow (Decimal 1 (- 1)) digits)
                 | Some e \<Rightarrow> e)
      in py_bind (py_lift (Decimal_quantize env (amount self) exp rounding)) (\<lambda>q.
         Money_init env (PyDecimal q) (PyCurrency (currency self)) None None))"

section \<open>Dictionaries and their read-only proxies\<close>

text \<open>
  The caller's dictionary and the \<^verbatim>\<open>MappingProxyType\<close> built from it in \<^verbatim>\<open>__init__\<close> are
  two objects over one table of entries. Item assignment on the dictionary updates the
  table; item assignment on the proxy raises \<^verbatim>\<open>TypeError\<close> and changes nothing; reading an
  item through the proxy reads the table of the dictionary it wraps.
\<close>

type_synonym dict = "string \<rightharpoonup> pyval"

type_synonym heap = "addr \<rightharpoonup> dict"

definition dict_getitem :: "heap \<Rightarrow> addr \<Rightarrow> string \<Rightarrow> error + pyval" where
  "dict_getitem h a k =
     (case h a of
        None \<Rightarrow> Inl (KeyError k)
      | Some d \<Rightarrow> (case d k of None \<Rightarrow> Inl (KeyError k) | Some v \<Rightarrow> Inr v))"

definition dict_setitem :: "heap \<Rightarrow> addr \<Rightarrow> string \<Rightarrow> pyval \<Rightarrow> heap" where
  "dict_setitem h a k v =
     (case h a of
        None \<Rightarrow> h
      | Some d \<Rightarrow> h(a \<mapsto> d(k \<mapsto> v)))"

definition proxy_getitem :: "heap \<Rightarrow> mappingproxy \<Rightarrow> string \<Rightarrow> error + pyval" where
  "proxy_getitem h p k = dict_getitem h (underlying p) k"

definition proxy_setitem :: "heap \<Rightarrow> mappingproxy \<Rightarrow> string \<Rightarrow> pyval \<Rightarrow> (error + unit) \<times> heap" where
  "proxy_setitem h p k v =
     (Inl (TypeError ''mappingproxy object does not support item assignment''), h)"

section \<open>A sample environment\<close>

text \<open>
  One environment on which the operations are evaluated below: two decimal places by
  default, no conversion setting, the default decimal context, a table of currency
  fractions with no minor-unit digits for the yen, and collaborators that
  answer the way \<^verbatim>\<open>moneyed.Money\<close> and a query-expression token do on the operands used
  here. The base class builds its results with this class's constructor and no metadata,
  so they carry the default decimal places and no format options.
\<close>

definition Decimal_add :: "decimal \<Rightarrow> decimal \<Rightarrow> decimal" where
  "Decimal_add x y =
     (let e = min (exponent x) (exponent y)
      in Decimal (coefficient x * 10 ^ nat (exponent x - e)
                  + coefficient y * 10 ^ nat (exponent y - e)) e)"

definition fresh_money :: "int \<Rightarrow> decimal \<Rightarrow> currency \<Rightarrow> pyval" where
  "fresh_money dp a c =
     PyMoney \<lparr>amount = a, currency = c, decimal_places = dp,
              format_options = None, use_l10n = None\<rparr>"

fun sample_init :: "pyval \<Rightarrow> pyval \<Rightarrow> error + decimal \<times> currency" where
  "sample_init (PyDecimal d) (PyCurrency c) = Inr (d, c)"
| "sample_init (PyInt i) (PyCurrency c) = Inr (Decimal i 0, c)"
| "sample_init _ _ = Inl (ValueError ''amount or currency not accepted'')"

definition sample_binop :: "int \<Rightarrow> dunder \<Rightarrow> money \<Rightarrow> pyval \<Rightarrow> error + pyval" where
  "sample_binop dp op self other =
     (case (op, other) of
        (Dadd, PyMoney b) \<Rightarrow>
          (if currency self = currency b
           then Inr (fresh_money dp (Decimal_add (amount self) (amount b)) (currency self))
           else Inl (TypeError ''Cannot add or subtract two Money instances with different currencies.''))
      | (Dsub, PyMoney b) \<Rightarrow>
          (if currency self = currency b
           then Inr (fresh_money dp
                       (Decimal_add (amount self)
                          (Decimal (- coefficient (amount b)) (exponent (amount b))))
                       (currency self))
           else Inl (TypeError ''Cannot add or subtract two Money instances with different currencies.''))
      | (Dmul, PyInt n) \<Rightarrow>
          Inr (fresh_money dp
                 (Decimal (coefficient (amount self) * n) (exponent (amount self)))
                 (currency self))
      | (Dmul, PyMoney b) \<Rightarrow> Inl (TypeError ''Cannot multiply two Money instances.'')
      | _ \<Rightarrow> Inr PyNotImplemented)"

fun sample_unop :: "int \<Rightarrow> unary \<Rightarrow> money \<Rightarrow> error + pyval" where
  "sample_unop dp (Uround n) self =
     Inr (fresh_money dp (rescale (amount self) (- n) ROUND_HALF_EVEN) (currency self))"
| "sample_unop dp Upos self = Inr (fresh_money dp (amount self) (currency self))"
| "sample_unop dp Uneg self =
     Inr (fresh_money dp
            (Decimal (- coefficient (amount self)) (exponent (amount self))) (currency self))"
| "sample_unop dp Uabs self =
     Inr (fresh_money dp
            (Decimal \<bar>coefficient (amount self)\<bar> (exponent (amount self))) (currency self))"

fun connector :: "dunder \<Rightarrow> string" where
  "connector Dradd = ''+''"
| "connector Drsub = ''-''"
| "connector Drmul = ''*''"
| "connector Drtruediv = ''/''"
| "connector _ = ''?''"

definition sample_reflected :: "dunder \<Rightarrow> string \<Rightarrow> money \<Rightarrow> error + pyval" where
  "sample_reflected op f m = Inr (PyCombinedExpression (PyMoney m) (connector op) (PyF f))"

definition sample_convert :: "pyval \<Rightarrow> currency \<Rightarrow> error + pyval" where
  "sample_convert v c =
     (case v of
        PyMoney m \<Rightarrow> Inr (PyMoney (m\<lparr>amount := Decimal (2 * coefficient (amount m)) (exponent (amount m)),
                                     currency := c\<rparr>))
      | _ \<Rightarrow> Inl (AttributeError ''amount''))"

definition sample_env :: env where
  "sample_env =
     \<lparr>DECIMAL_PLACES = 2, AUTO_CONVERT_MONEY = None, USE_L10N = None,
      context_prec = 28, context_rounding = ROUND_HALF_EVEN,
      currency_fractions = [''JPY'' \<mapsto> 0, ''KWD'' \<mapsto> 3],
      currency_fractions_DEFAULT = 2,
      convert_money = sample_convert,
      super_init = sample_init,
      super_binop = sample_binop 2,
      super_unop = sample_unop 2,
      F_reflected = sample_reflected\<rparr>"

definition usd :: "int \<Rightarrow> int \<Rightarrow> int \<Rightarrow> money" where
  "usd c e dp =
     \<lparr>amount = Decimal c e, currency = Currency ''USD'', decimal_places = dp,
      format_options = None, use_l10n = None\<rparr>"

definition eur :: "int \<Rightarrow> int \<Rightarrow> int \<Rightarrow> money" where
  "eur c e dp =
     \<lparr>amount = Decimal c e, currency = Currency ''EUR'', decimal_places = dp,
      format_options = None, use_l10n = None\<rparr>"

definition jpy :: "int \<Rightarrow> int \<Rightarrow> int \<Rightarrow> money" where
  "jpy c e dp =
     \<lparr>amount = Decimal c e, currency = Currency ''JPY'', decimal_places = dp,
      format_options = None, use_l10n = None\<rparr>"

definition sample_heap :: heap where
  "sample_heap = [0 \<mapsto> [''locale'' \<mapsto> PyStr ''en_US'']]"

section \<open>Properties\<close>

declare digit_count.simps [simp del]

lemma py_bind_return [simp]: "py_bind (py_return x) f = f x"
  by (cases "f x") (simp add: py_bind_def py_return_def)

lemma fst_py_return [simp]: "fst (py_return x) = Inr x"
  by (simp add: py_return_def)

lemma snd_py_return [simp]: "snd (py_return x) = []"
  by (simp add: py_return_def)

lemma py_bind_raise [simp]: "py_bind (py_raise e) f = py_raise e"
  by (simp add: py_bind_def py_raise_def)

lemma py_bind_lift_Inr [simp]: "py_bind (py_lift (Inr x)) f = f x"
  by (cases "f x") (simp add: py_bind_def py_lift_def)

lemma py_bind_lift_Inl [simp]: "py_bind (py_lift (Inl e)) f = (Inl e, [])"
  by (simp add: py_bind_def py_lift_def)

lemma py_bind_call_Inr [simp]:
  "py_bind (py_call c (Inr x)) f = (fst (f x), c # snd (f x))"
  by (cases "f x") (simp add: py_bind_def py_call_def)

lemma py_bind_call_Inl [simp]: "py_bind (py_call c (Inl e)) f = (Inl e, [c])"
  by (simp add: py_bind_def py_call_def)

lemma py_bind_Inr [simp]: "py_bind (Inr x, l) f = (fst (f x), l @ snd (f x))"
  by (cases "f x") (simp add: py_bind_def)

lemma py_bind_Inl [simp]: "py_bind (Inl e, l) f = (Inl e, l)"
  by (simp add: py_bind_def)

lemma copy_attributes_Money:
  "copy_attributes self (PyMoney other) (PyMoney target) =
     py_return (PyMoney (target\<lparr>decimal_places := max (decimal_places other) (decimal_places self)\<rparr>))"
  by (simp add: copy_attributes_def)

lemma copy_attributes_self:
  "copy_attributes self (PyMoney self) (PyMoney target) =
     py_return (PyMoney (target\<lparr>decimal_places := decimal_places self\<rparr>))"
  by (simp add: copy_attributes_Money)

lemma maybe_convert_same_currency:
  "maybe_convert env (PyMoney b) (currency b) = py_return (PyMoney b)"
  by (simp add: maybe_convert_def)

lemma round_half_up_near:
  "2 * \<bar>round_coefficient ROUND_HALF_UP c s * 10 ^ s - c\<bar> \<le> 10 ^ s"
proof -
  define p :: int where "p = 10 ^ s"
  define q where "q = \<bar>c\<bar> div p"
  define r where "r = \<bar>c\<bar> mod p"
  have p: "0 < p" by (simp add: p_def)
  have r: "0 \<le> r" "r < p" using p by (simp_all add: r_def)
  have a: "\<bar>c\<bar> = q * p + r" by (simp add: q_def r_def)
  have rc: "round_coefficient ROUND_HALF_UP c s = sgn c * (if p \<le> 2 * r then q + 1 else q)"
    by (simp add: round_coefficient_def Let_def p_def q_def r_def)
  show ?thesis
  proof (cases "0 \<le> c")
    case True
    then have "c = q * p + r" using a by simp
    then show ?thesis using r True unfolding rc p_def[symmetric]
      by (cases "c = 0") (auto simp: algebra_simps sgn_if)
  next
    case False
    then have "c = - (q * p + r)" using a by simp
    then show ?thesis using r False unfolding rc p_def[symmetric]
      by (auto simp: algebra_simps sgn_if)
  qed
qed

lemma round_half_up_tie:
  assumes "2 * \<bar>round_coefficient ROUND_HALF_UP c s * 10 ^ s - c\<bar> = 10 ^ s"
  shows "\<bar>c\<bar> < \<bar>round_coefficient ROUND_HALF_UP c s\<bar> * 10 ^ s"
proof -
  define p :: int where "p = 10 ^ s"
  define q where "q = \<bar>c\<bar> div p"
  define r where "r = \<bar>c\<bar> mod p"
  have p: "0 < p" by (simp add: p_def)
  have r: "0 \<le> r" "r < p" using p by (simp_all add: r_def)
  have q: "0 \<le> q" using p by (simp add: q_def pos_imp_zdiv_nonneg_iff)
  have a: "\<bar>c\<bar> = q * p + r" by (simp add: q_def r_def)
  have rc: "round_coefficient ROUND_HALF_UP c s = sgn c * (if p \<le> 2 * r then q + 1 else q)"
    by (simp add: round_coefficient_def Let_def p_def q_def r_def)
  show ?thesis
  proof (cases "0 \<le> c")
    case True
    then have "c = q * p + r" using a by simp
    then show ?thesis using r q True p assms unfolding rc p_def[symmetric]
      by (cases "c = 0") (auto simp: algebra_simps sgn_if abs_mult split: if_splits)
  next
    case False
    then have "c = - (q * p + r)" using a by simp
    then show ?thesis using r q False p assms unfolding rc p_def[symmetric]
      by (auto simp: algebra_simps sgn_if abs_mult split: if_splits)
  qed
qed

lemma Money_init_stores:
  "super_init env av cv = Inr (a, c) \<Longrightarrow>
   Money_init env av cv None None =
     (Inr \<lparr>amount = a, currency = c, decimal_places = DECIMAL_PLACES env,
           format_options = None, use_l10n = None\<rparr>, [Call_super_init av cv])"
  by (simp add: Money_init_def py_return_def)

subsection \<open>Precision of sums and differences\<close>

text \<open>
  Claim C1. For two Money values \<open>A\<close> and \<open>B\<close> of the same currency with precision hints
  \<open>pA\<close> and \<open>pB\<close> (\<open>B\<close> is a Money, so not a deferred-expression token), whenever the base
  type's addition (subtraction) returns a Money, \<open>A + B\<close> (\<open>A - B\<close>) returns that Money
  with \<open>decimal_places\<close> set to \<open>max pA pB\<close>.
\<close>

theorem add_sub_decimal_places:
  assumes "currency A = currency B" and "decimal_places A = pA" and "decimal_places B = pB"
  shows "(\<forall>r. super_binop env Dadd A (PyMoney B) = Inr (PyMoney r) \<longrightarrow>
            fst (Money_add env A (PyMoney B)) = Inr (PyMoney (r\<lparr>decimal_places := max pA pB\<rparr>)))
       \<and> (\<forall>r. super_binop env Dsub A (PyMoney B) = Inr (PyMoney r) \<longrightarrow>
            fst (Money_sub env A (PyMoney B)) = Inr (PyMoney (r\<lparr>decimal_places := max pA pB\<rparr>)))"
  using assms
  by (simp add: Money_add_def Money_sub_def maybe_convert_same_currency super_call_def
      copy_attributes_Money max.commute)

theorem add_sub_decimal_places_witness:
  "fst (Money_add sample_env (usd 105 (- 1) 1) (PyMoney (usd 2525 (- 3) 3)))
     = Inr (PyMoney (usd 13025 (- 3) 3))
   \<and> fst (Money_sub sample_env (usd 105 (- 1) 1) (PyMoney (usd 2525 (- 3) 3)))
     = Inr (PyMoney (usd 7975 (- 3) 3))"
  using add_sub_decimal_places [of "usd 105 (- 1) 1" "usd 2525 (- 3) 3" 1 3 sample_env]
  by (simp add: usd_def sample_env_def sample_binop_def fresh_money_def Decimal_add_def)

subsection \<open>Reverse division\<close>

text \<open>
  Claim C4. For every Money value \<open>m\<close> and every operand \<open>x\<close>, the reverse true division
  \<open>m.__rtruediv__(x)\<close> raises a type error; it returns a value for no operand, and it
  calls no collaborator.
\<close>

theorem rtruediv_raises:
  "fst (Money_rtruediv env m x) = Inl (TypeError ''Cannot divide non-Money by a Money instance.'')
   \<and> (\<forall>v. fst (Money_rtruediv env m x) \<noteq> Inr v)
   \<and> snd (Money_rtruediv env m x) = []"
  by (simp add: Money_rtruediv_def py_raise_def)

subsection \<open>Deferred-expression tokens\<close>

text \<open>
  Claim C5. When the operand is a deferred-expression token \<open>PyF f\<close>, addition,
  subtraction, multiplication and division on a Money value \<open>m\<close> return exactly what the
  token's reflected operator returns for \<open>m\<close> (or raise what it raises), and the only call
  made is that one: no base-type arithmetic, no conversion, no attribute copied.
\<close>

theorem F_delegation:
  "Money_add env m (PyF f) = (F_reflected env Dradd f m, [Call_reflected Dradd f m])
   \<and> Money_sub env m (PyF f) = (F_reflected env Drsub f m, [Call_reflected Drsub f m])
   \<and> Money_mul env m (PyF f) = (F_reflected env Drmul f m, [Call_reflected Drmul f m])
   \<and> Money_truediv env m (PyF f) = (F_reflected env Drtruediv f m, [Call_reflected Drtruediv f m])"
  by (simp add: Money_add_def Money_sub_def Money_mul_def Money_truediv_def reflected_def py_call_def)

subsection \<open>The conversion guard\<close>

text \<open>
  Claim C6. When the auto-convert setting is absent or false, \<open>maybe_convert\<close> returns its
  argument unchanged and calls nothing; adding a Money \<open>b\<close> to a Money \<open>m\<close> then hands
  \<open>b\<close> itself to the base type's addition, whatever the two currencies are, and the
  conversion service is not called. The conversion service is called by the guard only
  when the setting is true and the value has a currency different from the target one.
\<close>

theorem maybe_convert_guard:
  "(AUTO_CONVERT_MONEY env \<noteq> Some True \<longrightarrow> maybe_convert env v c = (Inr v, []))
   \<and> (AUTO_CONVERT_MONEY env \<noteq> Some True \<longrightarrow>
        Money_add env m (PyMoney b) =
          py_bind (py_call (Call_super Dadd m (PyMoney b)) (super_binop env Dadd m (PyMoney b)))
            (\<lambda>result. copy_attributes m (PyMoney b) result))
   \<and> (AUTO_CONVERT_MONEY env \<noteq> Some True \<longrightarrow>
        Call_convert_money x y \<notin> set (snd (Money_add env m (PyMoney b))))
   \<and> (Call_convert_money x y \<in> set (snd (maybe_convert env v c)) \<longrightarrow>
        AUTO_CONVERT_MONEY env = Some True \<and> (\<exists>vc. getattr_currency v = Inr vc \<and> vc \<noteq> c))"
proof -
  have off: "maybe_convert env v c = py_return v" if "AUTO_CONVERT_MONEY env \<noteq> Some True" for v c
    using that by (cases "AUTO_CONVERT_MONEY env") (auto simp: maybe_convert_def)
  have copy: "Call_convert_money x y \<notin> set (snd (copy_attributes m s t))" for s t
    by (cases t; cases s) (simp_all add: copy_attributes_def py_return_def py_raise_def)
  have 1: "AUTO_CONVERT_MONEY env \<noteq> Some True \<longrightarrow> maybe_convert env v c = (Inr v, [])"
    using off by (simp add: py_return_def)
  have 2: "AUTO_CONVERT_MONEY env \<noteq> Some True \<longrightarrow>
        Money_add env m (PyMoney b) =
          py_bind (py_call (Call_super Dadd m (PyMoney b)) (super_binop env Dadd m (PyMoney b)))
            (\<lambda>result. copy_attributes m (PyMoney b) result)"
    by (simp add: Money_add_def off super_call_def)
  have 3: "AUTO_CONVERT_MONEY env \<noteq> Some True \<longrightarrow>
        Call_convert_money x y \<notin> set (snd (Money_add env m (PyMoney b)))"
    using copy by (cases "super_binop env Dadd m (PyMoney b)")
      (auto simp: Money_add_def off super_call_def)
  have 4: "Call_convert_money x y \<in> set (snd (maybe_convert env v c)) \<longrightarrow>
        AUTO_CONVERT_MONEY env = Some True \<and> (\<exists>vc. getattr_currency v = Inr vc \<and> vc \<noteq> c)"
    by (cases "AUTO_CONVERT_MONEY env"; cases "getattr_currency v")
      (auto simp: maybe_convert_def py_return_def py_call_def split: if_splits)
  from 1 2 3 4 show ?thesis by blast
qed

theorem maybe_convert_guard_witness:
  "AUTO_CONVERT_MONEY sample_env \<noteq> Some True
   \<and> maybe_convert sample_env (PyMoney (eur 500 (- 2) 2)) (Currency ''USD'')
       = (Inr (PyMoney (eur 500 (- 2) 2)), [])
   \<and> Money_add sample_env (usd 100 (- 2) 2) (PyMoney (eur 500 (- 2) 2))
       = (Inl (TypeError ''Cannot add or subtract two Money instances with different currencies.''),
          [Call_super Dadd (usd 100 (- 2) 2) (PyMoney (eur 500 (- 2) 2))])
   \<and> Call_convert_money (PyMoney (eur 500 (- 2) 2)) (Currency ''USD'')
       \<in> set (snd (maybe_convert (sample_env\<lparr>AUTO_CONVERT_MONEY := Some True\<rparr>)
                     (PyMoney (eur 500 (- 2) 2)) (Currency ''USD'')))
   \<and> AUTO_CONVERT_MONEY (sample_env\<lparr>AUTO_CONVERT_MONEY := Some True\<rparr>) = Some True
   \<and> getattr_currency (PyMoney (eur 500 (- 2) 2)) = Inr (Currency ''EUR'')"
  using maybe_convert_guard [of sample_env "PyMoney (eur 500 (- 2) 2)" "Currency ''USD''"
      "usd 100 (- 2) 2" "eur 500 (- 2) 2" "PyMoney (eur 500 (- 2) 2)" "Currency ''USD''"]
    maybe_convert_guard [of "sample_env\<lparr>AUTO_CONVERT_MONEY := Some True\<rparr>"
      "PyMoney (eur 500 (- 2) 2)" "Currency ''USD''" "usd 100 (- 2) 2" "eur 500 (- 2) 2"
      "PyMoney (eur 500 (- 2) 2)" "Currency ''USD''"]
  by (simp add: sample_env_def usd_def eur_def maybe_convert_def sample_binop_def py_call_def
      sample_convert_def py_return_def py_bind_def py_lift_def Money_add_def super_call_def)

subsection \<open>Construction\<close>

text \<open>
  Claim C8. For every amount and currency that the base type accepts, the constructed
  Money reads back the amount and the currency that the base type stored for them (the
  supplied decimal and currency object themselves when the base type stores them as
  given), and its \<open>decimal_places\<close> is the supplied one, or the process-wide default when
  it is omitted or \<open>None\<close>.
\<close>

theorem init_readback:
  assumes "super_init env amount_arg currency_arg = Inr (a, c)"
  shows "fst (Money_init env amount_arg currency_arg fo dp) =
           Inr \<lparr>amount = a, currency = c,
                decimal_places = (case dp of Some d \<Rightarrow> d | None \<Rightarrow> DECIMAL_PLACES env),
                format_options = map_option MappingProxyType fo, use_l10n = None\<rparr>"
  using assms by (cases fo) (simp_all add: Money_init_def)

theorem init_readback_witness:
  "fst (Money_init sample_env (PyDecimal (Decimal 1999 (- 2))) (PyCurrency (Currency ''USD'')) None None)
     = Inr (usd 1999 (- 2) 2)
   \<and> fst (Money_init sample_env (PyDecimal (Decimal 1999 (- 2))) (PyCurrency (Currency ''USD'')) None (Some 4))
     = Inr (usd 1999 (- 2) 4)"
  using init_readback [of sample_env "PyDecimal (Decimal 1999 (- 2))" "PyCurrency (Currency ''USD'')"
      "Decimal 1999 (- 2)" "Currency ''USD''" None None]
    init_readback [of sample_env "PyDecimal (Decimal 1999 (- 2))" "PyCurrency (Currency ''USD'')"
      "Decimal 1999 (- 2)" "Currency ''USD''" None "Some 4"]
  by (simp add: sample_env_def usd_def)

subsection \<open>Localization flag\<close>

text \<open>
  Claim C9. \<open>is_localized\<close> returns the instance's \<open>use_l10n\<close> when it is set; when it is
  unset it returns the process-wide \<open>USE_L10N\<close> setting, and true when that setting is
  absent.
\<close>

theorem is_localized_cases:
  "(use_l10n m = Some b \<longrightarrow> is_localized env m = b)
   \<and> (use_l10n m = None \<and> USE_L10N env = Some s \<longrightarrow> is_localized env m = s)
   \<and> (use_l10n m = None \<and> USE_L10N env = None \<longrightarrow> is_localized env m)"
  by (simp add: is_localized_def)

theorem is_localized_cases_witness:
  "is_localized (sample_env\<lparr>USE_L10N := Some True\<rparr>) ((usd 1 0 2)\<lparr>use_l10n := Some False\<rparr>) = False
   \<and> is_localized (sample_env\<lparr>USE_L10N := Some False\<rparr>) (usd 1 0 2) = False
   \<and> is_localized sample_env (usd 1 0 2)"
  using is_localized_cases [of "(usd 1 0 2)\<lparr>use_l10n := Some False\<rparr>" False
      "sample_env\<lparr>USE_L10N := Some True\<rparr>" True]
    is_localized_cases [of "usd 1 0 2" False "sample_env\<lparr>USE_L10N := Some False\<rparr>" False]
    is_localized_cases [of "usd 1 0 2" False sample_env False]
  by (simp add: usd_def sample_env_def)

subsection \<open>Reflected addition and multiplication\<close>

text \<open>
  Claim C10. The reflected addition and multiplication of a Money value are the forward
  operators of this class: for an operand \<open>x\<close> that is not a deferred-expression token,
  \<open>m.__radd__(x)\<close> runs the conversion guard on \<open>x\<close>, calls the base type's addition and
  copies the precision onto the result, and \<open>m.__rmul__(x)\<close> calls the base type's
  multiplication and copies the precision onto the result, exactly as \<open>m + x\<close> and
  \<open>m * x\<close> do.
\<close>

theorem reflected_operators:
  "Money_radd env m x = Money_add env m x
   \<and> Money_rmul env m x = Money_mul env m x
   \<and> (\<not> isinstance_F x \<longrightarrow>
        Money_radd env m x =
          py_bind (maybe_convert env x (currency m)) (\<lambda>other.
          py_bind (py_call (Call_super Dadd m other) (super_binop env Dadd m other)) (\<lambda>result.
          copy_attributes m other result)))
   \<and> (\<not> isinstance_F x \<longrightarrow>
        Money_rmul env m x =
          py_bind (py_call (Call_super Dmul m x) (super_binop env Dmul m x)) (\<lambda>result.
          copy_attributes m x result))"
  by (cases x) (simp_all add: Money_radd_def Money_rmul_def Money_add_def Money_mul_def super_call_def)

theorem reflected_operators_witness:
  "\<not> isinstance_F (PyMoney (usd 2525 (- 3) 3)) \<and> \<not> isinstance_F (PyInt 3)
   \<and> Money_radd sample_env (usd 105 (- 1) 1) (PyMoney (usd 2525 (- 3) 3))
       = (Inr (PyMoney (usd 13025 (- 3) 3)),
          [Call_super Dadd (usd 105 (- 1) 1) (PyMoney (usd 2525 (- 3) 3))])
   \<and> Money_rmul sample_env (usd 105 (- 1) 1) (PyInt 3)
       = (Inr (PyMoney (usd 315 (- 1) 1)), [Call_super Dmul (usd 105 (- 1) 1) (PyInt 3)])"
  using reflected_operators [of sample_env "usd 105 (- 1) 1" "PyMoney (usd 2525 (- 3) 3)"]
    reflected_operators [of sample_env "usd 105 (- 1) 1" "PyInt 3"]
  by (simp add: usd_def sample_env_def maybe_convert_def sample_binop_def fresh_money_def
      Decimal_add_def copy_attributes_def py_return_def py_bind_def py_call_def
      Money_radd_def Money_rmul_def Money_add_def Money_mul_def super_call_def)

subsection \<open>Rounding\<close>

text \<open>
  Claim C2, as the code has it. Rounding a Money value \<open>m\<close> keeps its \<open>decimal_places\<close>,
  for every number of digits (so for all \<open>n \<ge> 0\<close>): the built-in \<open>round(m, n)\<close> returns a
  new Money with the rounded amount, \<open>m\<close>'s \<open>decimal_places\<close> and no format options; the
  method \<open>m.round(n)\<close> returns the base type's result with \<open>decimal_places\<close> overwritten
  by \<open>m\<close>'s and nothing else changed. The format options of \<open>m\<close> are not copied.
\<close>

theorem round_keeps_decimal_places:
  "(\<forall>q a c. Decimal_round env (amount m) n = Inr q
        \<and> super_init env q (PyCurrency (currency m)) = Inr (a, c) \<longrightarrow>
        fst (Money_dunder_round env m n) =
          Inr (PyMoney \<lparr>amount = a, currency = c, decimal_places = decimal_places m,
                        format_options = None, use_l10n = None\<rparr>))
   \<and> (\<forall>r. super_unop env (Uround k) m = Inr (PyMoney r) \<longrightarrow>
        fst (Money_round env m k) = Inr (PyMoney (r\<lparr>decimal_places := decimal_places m\<rparr>)))"
  by (simp add: Money_dunder_round_def Money_round_def Money_init_stores copy_attributes_self
      super_unary_def)

theorem round_keeps_decimal_places_witness:
  "fst (Money_dunder_round sample_env
          ((usd 12345 (- 3) 3)\<lparr>format_options := Some (MappingProxyType 0)\<rparr>) (Some 2))
     = Inr (PyMoney (usd 1234 (- 2) 3))
   \<and> fst (Money_round sample_env
          ((usd 12345 (- 3) 3)\<lparr>format_options := Some (MappingProxyType 0)\<rparr>) 2)
     = Inr (PyMoney (usd 1234 (- 2) 3))"
  using round_keeps_decimal_places [of sample_env
      "(usd 12345 (- 3) 3)\<lparr>format_options := Some (MappingProxyType 0)\<rparr>" "Some 2" 2]
  by (simp add: sample_env_def usd_def Decimal_round_def Decimal_quantize_def rescale_def
      round_coefficient_def fresh_money_def digit_count.simps)

text \<open>
  Claim C2 as stated fails: a Money with format options, rounded to two digits by the
  built-in \<open>round\<close>, gives a Money without format options.
\<close>

theorem round_format_options_counterexample:
  "fst (Money_dunder_round sample_env
          ((usd 12345 (- 3) 3)\<lparr>format_options := Some (MappingProxyType 0)\<rparr>) (Some 2))
     = Inr (PyMoney (usd 1234 (- 2) 3))
   \<and> format_options (usd 1234 (- 2) 3)
       \<noteq> format_options ((usd 12345 (- 3) 3)\<lparr>format_options := Some (MappingProxyType 0)\<rparr>)"
  by (simp add: sample_env_def usd_def Decimal_round_def Decimal_quantize_def rescale_def
      round_coefficient_def digit_count.simps Money_dunder_round_def Money_init_def
      copy_attributes_def py_bind_def py_return_def py_lift_def py_call_def)

subsection \<open>Quantization\<close>

text \<open>
  What the default quantization does. The lookup of the digits is by the currency
  object, so \<open>digits\<close> is the default entry of the table for every currency. Let \<open>q\<close> be
  the amount of \<open>m\<close> rescaled to the exponent \<open>-digits\<close> with round-half-up. Whenever the
  coefficient of \<open>q\<close> fits the precision of the decimal context and the base type stores
  the pair, quantizing \<open>m\<close> with no exponent and no rounding mode returns the Money of
  amount \<open>q\<close> and \<open>m\<close>'s currency with the default \<open>decimal_places\<close> and no format
  options, whatever \<open>m\<close>'s own are; it is the same as quantizing with \<open>ROUND_HALF_UP\<close>
  given. The amount \<open>q\<close> equals the amount of \<open>m\<close> when that has no more than \<open>digits\<close>
  decimal places, and is otherwise a nearest multiple of \<open>10 ^ (-digits)\<close>, the one away
  from zero in a tie.
\<close>

lemma get_currency_precision_object:
  "get_currency_precision env (PyCurrency c) = currency_fractions_DEFAULT env"
  by (simp add: get_currency_precision_def)

lemma quantize_default_digits:
  assumes "digits = get_currency_precision env (PyCurrency (currency m))"
    and "q = rescale (amount m) (- int digits) ROUND_HALF_UP"
    and "k = nat (- int digits - exponent (amount m))"
    and "digit_count (nat \<bar>coefficient q\<bar>) \<le> context_prec env"
    and "super_init env (PyDecimal q) (PyCurrency (currency m)) = Inr (q, currency m)"
  shows "fst (Money_quantize env m None None) =
           Inr \<lparr>amount = q, currency = currency m, decimal_places = DECIMAL_PLACES env,
                format_options = None, use_l10n = None\<rparr>
       \<and> Money_quantize env m None None = Money_quantize env m None (Some ROUND_HALF_UP)
       \<and> digits = currency_fractions_DEFAULT env
       \<and> exponent q = - int digits
       \<and> (- int digits \<le> exponent (amount m) \<longrightarrow>
            coefficient q = coefficient (amount m) * 10 ^ nat (exponent (amount m) + int digits))
       \<and> (exponent (amount m) < - int digits \<longrightarrow>
            2 * \<bar>coefficient q * 10 ^ k - coefficient (amount m)\<bar> \<le> 10 ^ k
            \<and> (2 * \<bar>coefficient q * 10 ^ k - coefficient (amount m)\<bar> = 10 ^ k \<longrightarrow>
                 \<bar>coefficient (amount m)\<bar> < \<bar>coefficient q\<bar> * 10 ^ k))"
proof -
  have e: "Decimal_pow (Decimal 1 (- 1)) digits = Decimal 1 (- int digits)"
    by (simp add: Decimal_pow_def)
  have 1: "fst (Money_quantize env m None None) =
           Inr \<lparr>amount = q, currency = currency m, decimal_places = DECIMAL_PLACES env,
                format_options = None, use_l10n = None\<rparr>"
    using assms(4,5) unfolding Money_quantize_def Let_def
    by (simp add: e assms(1)[symmetric] Decimal_quantize_def assms(2)[symmetric] Money_init_stores)
  have 2: "Money_quantize env m None None = Money_quantize env m None (Some ROUND_HALF_UP)"
    by (simp add: Money_quantize_def)
  have 3: "exponent q = - int digits"
    by (simp add: assms(2) rescale_def)
  have 4: "- int digits \<le> exponent (amount m) \<longrightarrow>
            coefficient q = coefficient (amount m) * 10 ^ nat (exponent (amount m) + int digits)"
    by (simp add: assms(2) rescale_def)
  have 5: "exponent (amount m) < - int digits \<longrightarrow>
            2 * \<bar>coefficient q * 10 ^ k - coefficient (amount m)\<bar> \<le> 10 ^ k
            \<and> (2 * \<bar>coefficient q * 10 ^ k - coefficient (amount m)\<bar> = 10 ^ k \<longrightarrow>
                 \<bar>coefficient (amount m)\<bar> < \<bar>coefficient q\<bar> * 10 ^ k)"
    using round_half_up_near [of "coefficient (amount m)" k]
      round_half_up_tie [of "coefficient (amount m)" k]
    by (simp add: assms(2,3) rescale_def)
  have 6: "digits = currency_fractions_DEFAULT env"
    by (simp add: assms(1) get_currency_precision_object)
  from 1 2 3 4 5 6 show ?thesis by blast
qed

text \<open>
  The other branch of the default quantization: when the rescaled coefficient has more
  digits than the precision of the decimal context, \<^verbatim>\<open>Decimal.quantize\<close> signals
  \<^verbatim>\<open>InvalidOperation\<close> and no Money is built.
\<close>

lemma quantize_invalid_operation:
  assumes "context_prec env <
           digit_count (nat \<bar>coefficient (rescale (amount m)
             (- int (currency_fractions_DEFAULT env)) ROUND_HALF_UP)\<bar>)"
  shows "Money_quantize env m None None = (Inl InvalidOperation, [])"
  using assms
  by (simp add: Money_quantize_def Decimal_quantize_def Decimal_pow_def
      get_currency_precision_object)

text \<open>
  Claim C3 says that quantizing a Money value with no exponent gives its amount exactly
  the currency's canonical number of minor-unit digits, with round-half-up and default
  metadata. The code does not reach the currency's digits: a Money of 1234.5 yen, whose
  currency has 0 minor-unit digits in the table (the lookup by the code \<open>JPY\<close> answers
  0), is quantized to 1234.50, two decimal places, because the lookup by the currency
  object answers the default. The rounding mode and the default metadata are as claimed.
\<close>

theorem quantize_ignores_currency_digits:
  "currency_fractions sample_env ''JPY'' = Some 0
   \<and> get_currency_precision sample_env (PyStr ''JPY'') = 0
   \<and> get_currency_precision sample_env (PyCurrency (Currency ''JPY'')) = 2
   \<and> fst (Money_quantize sample_env (jpy 12345 (- 1) 0) None None)
       = Inr (jpy 123450 (- 2) 2)"
  by (simp add: sample_env_def jpy_def get_currency_precision_def Money_quantize_def
      Decimal_quantize_def Decimal_pow_def rescale_def digit_count.simps Money_init_def
      py_bind_def py_lift_def py_call_def py_return_def)

subsection \<open>Format options are a read-only view\<close>

text \<open>
  Claim C7, as the code has it. A Money constructed with a dictionary stores a read-only
  proxy of that very dictionary: item assignment through the stored proxy raises a type
  error and changes nothing, and reading through it reads the caller's dictionary as it
  is at the time of the read, so an item the caller sets later is seen through the proxy.
\<close>

theorem format_options_view:
  assumes "fst (Money_init env a c (Some d) dp) = Inr m"
  shows "format_options m = Some (MappingProxyType d)
       \<and> proxy_setitem h (MappingProxyType d) k v =
           (Inl (TypeError ''mappingproxy object does not support item assignment''), h)
       \<and> proxy_getitem h (MappingProxyType d) k = dict_getitem h d k
       \<and> (h d \<noteq> None \<longrightarrow> proxy_getitem (dict_setitem h d k v) (MappingProxyType d) k = Inr v)"
proof -
  from assms have "format_options m = Some (MappingProxyType d)"
    by (cases "super_init env a c")
      (auto simp: Money_init_def py_bind_def py_call_def py_return_def split: prod.splits)
  then show ?thesis
    by (auto simp: proxy_setitem_def proxy_getitem_def dict_getitem_def dict_setitem_def)
qed

theorem format_options_view_witness:
  "fst (Money_init sample_env (PyDecimal (Decimal 1 0)) (PyCurrency (Currency ''USD'')) (Some 0) None)
     = Inr ((usd 1 0 2)\<lparr>format_options := Some (MappingProxyType 0)\<rparr>)
   \<and> sample_heap 0 \<noteq> None
   \<and> proxy_getitem (dict_setitem sample_heap 0 ''currency_digits'' (PyStr ''False''))
       (MappingProxyType 0) ''currency_digits'' = Inr (PyStr ''False'')"
proof -
  have c: "fst (Money_init sample_env (PyDecimal (Decimal 1 0)) (PyCurrency (Currency ''USD'')) (Some 0) None)
     = Inr ((usd 1 0 2)\<lparr>format_options := Some (MappingProxyType 0)\<rparr>)"
    by (simp add: Money_init_def sample_env_def usd_def)
  have h: "sample_heap 0 \<noteq> None" by (simp add: sample_heap_def)
  from format_options_view [OF c, of sample_heap "''currency_digits''" "PyStr ''False''"] c h
  show ?thesis by simp
qed

text \<open>
  Claim C7 as stated fails: the stored mapping is no copy. After the caller sets
  \<open>locale\<close> in the original dictionary, the stored proxy reads the new value.
\<close>

theorem format_options_copy_counterexample:
  "fst (Money_init sample_env (PyDecimal (Decimal 1 0)) (PyCurrency (Currency ''USD'')) (Some 0) None)
     = Inr ((usd 1 0 2)\<lparr>format_options := Some (MappingProxyType 0)\<rparr>)
   \<and> proxy_getitem sample_heap (MappingProxyType 0) ''locale'' = Inr (PyStr ''en_US'')
   \<and> proxy_getitem (dict_setitem sample_heap 0 ''locale'' (PyStr ''de_DE''))
       (MappingProxyType 0) ''locale'' = Inr (PyStr ''de_DE'')
   \<and> proxy_getitem (dict_setitem sample_heap 0 ''locale'' (PyStr ''de_DE''))
       (MappingProxyType 0) ''locale''
       \<noteq> proxy_getitem sample_heap (MappingProxyType 0) ''locale''"
  by (simp add: Money_init_def sample_env_def usd_def sample_heap_def proxy_getitem_def
      dict_getitem_def dict_setitem_def)

end
